theory Spec2Isabelle
  imports Main "HOL-Library.Word"
begin

section \<open>Outbound mail sender (services/mailservice/mail.go)\<close>

subsection \<open>Go error values\<close>

text \<open>
  A Go \<open>error\<close> is a value with a method \<open>Error()\<close> giving its message. The
  constructors are the error values this package builds (\<open>errors.New\<close>,
  \<open>errors.Wrap\<close> of github.com/pkg/errors), the two sentinel values of package
  \<open>context\<close>, and \<open>lib_error\<close> for an error of any other library (net, tls, smtp,
  html2text), known by its message. A nil error is \<open>None\<close> of \<open>error option\<close>.
\<close>

datatype error =
    errors_New string
  | errors_Wrap error string
  | context_Canceled
  | context_DeadlineExceeded
  | lib_error string

fun Error :: "error \<Rightarrow> string" where
  "Error (errors_New msg) = msg"
| "Error (errors_Wrap err msg) = msg @ '': '' @ Error err"
| "Error context_Canceled = ''context canceled''"
| "Error context_DeadlineExceeded = ''context deadline exceeded''"
| "Error (lib_error msg) = msg"

subsection \<open>Connection parameters\<close>

definition connSecurityTls :: string where
  "connSecurityTls = ''TLS''"

definition connSecurityStarttls :: string where
  "connSecurityStarttls = ''STARTTLS''"

text \<open>Go's \<open>int\<close> (\<open>ServerTimeout\<close>) is taken as 64 bits wide.\<close>

record SMTPConfig =
  ConnectionSecurity :: string
  SkipServerCertificateVerification :: bool
  Hostname :: string
  Server :: string
  Port :: string
  ServerTimeout :: "64 word"
  Username :: string
  Password :: string
  EnableSMTPAuth :: bool
  SendEmailNotifications :: bool
  FeedbackName :: string
  FeedbackEmail :: string
  ReplyToAddress :: string

record SmtpConnectionInfo =
  SmtpUsername :: string
  SmtpPassword :: string
  SmtpServerName :: string
  SmtpServerHost :: string
  SmtpPort :: string
  SmtpServerTimeout :: "64 word"
  SkipCertVerification :: bool
  ConnectionSecurity :: string
  Auth :: bool

subsection \<open>Authentication mechanisms\<close>

text \<open>\<open>smtp.ServerInfo\<close> of the standard library: what the client knows of the server.\<close>

record ServerInfo =
  Name :: string
  TLS :: bool
  Auth :: "string list"

record loginAuth =
  username :: string
  password :: string
  host :: string

text \<open>
  The values an \<open>smtp.Auth\<close> interface holds in this package: the package's own
  \<open>loginAuth\<close>, or the standard library's PLAIN mechanism, built by
  \<open>smtp.PlainAuth identity username password host\<close>.
\<close>

datatype smtp_Auth =
    LoginAuthValue loginAuth
  | PlainAuthValue string string string string

definition LoginAuth :: "string \<Rightarrow> string \<Rightarrow> string \<Rightarrow> smtp_Auth" where
  "LoginAuth u p h = LoginAuthValue \<lparr>username = u, password = p, host = h\<rparr>"

definition smtp_PlainAuth :: "string \<Rightarrow> string \<Rightarrow> string \<Rightarrow> string \<Rightarrow> smtp_Auth" where
  "smtp_PlainAuth identity u p h = PlainAuthValue identity u p h"

text \<open>The result of \<open>Start\<close>: the error, or the mechanism name and the first response.\<close>

type_synonym start_result = "error + (string \<times> string)"

definition loginAuth_Start :: "loginAuth \<Rightarrow> ServerInfo \<Rightarrow> start_result" where
  "loginAuth_Start a server =
     (if \<not> TLS server then Inl (errors_New ''unencrypted connection'')
      else if Name server \<noteq> host a then Inl (errors_New ''wrong host name'')
      else Inr (''LOGIN'', []))"

definition loginAuth_Next :: "loginAuth \<Rightarrow> string \<Rightarrow> bool \<Rightarrow> error + string option" where
  "loginAuth_Next a fromServer more' =
     (if more' then
        (if fromServer = ''Username:'' then Inr (Some (username a))
         else if fromServer = ''Password:'' then Inr (Some (password a))
         else Inl (errors_New ''Unknown fromServer''))
      else Inr None)"

text \<open>
  \<open>authChooser\<close> embeds an \<open>smtp.Auth\<close> (nil until \<open>Start\<close> assigns it) and
  points to the connection parameters.
\<close>

record authChooser =
  Auth :: "smtp_Auth option"
  connectionInfo :: SmtpConnectionInfo

text \<open>
  The loop of \<open>authChooser.Start\<close> over \<open>server.Auth\<close>: \<open>current\<close> is the
  mechanism assigned before the loop, \<open>plain\<close> the one assigned at the first method
  equal to \<open>PLAIN\<close>, where the loop breaks.
\<close>

fun choose_method :: "smtp_Auth \<Rightarrow> smtp_Auth \<Rightarrow> string list \<Rightarrow> smtp_Auth" where
  "choose_method current plain [] = current"
| "choose_method current plain (method # methods) =
     (if method = ''PLAIN'' then plain else choose_method current plain methods)"

text \<open>
  \<open>Start\<close> of the chosen mechanism. \<open>plainAuth.Start\<close> belongs to the standard
  library (net/smtp) and is a parameter \<open>plain_Start\<close>, applied to the four
  arguments of \<open>smtp.PlainAuth\<close>.
\<close>

type_synonym plain_start = "string \<Rightarrow> string \<Rightarrow> string \<Rightarrow> string \<Rightarrow> ServerInfo \<Rightarrow> start_result"

fun smtp_Auth_Start :: "plain_start \<Rightarrow> smtp_Auth \<Rightarrow> ServerInfo \<Rightarrow> start_result" where
  "smtp_Auth_Start plain_Start (LoginAuthValue a) server = loginAuth_Start a server"
| "smtp_Auth_Start plain_Start (PlainAuthValue identity u p h) server =
     plain_Start identity u p h server"

text \<open>\<open>authChooser.Start\<close> returns the result of \<open>Start\<close> and the updated chooser.\<close>

definition authChooser_Start ::
  "plain_start \<Rightarrow> authChooser \<Rightarrow> ServerInfo \<Rightarrow> start_result \<times> authChooser" where
  "authChooser_Start plain_Start a server =
     (let info = connectionInfo a;
          smtpAddress = SmtpServerName info @ '':'' @ SmtpPort info;
          login = LoginAuth (SmtpUsername info) (SmtpPassword info) smtpAddress;
          plain = smtp_PlainAuth [] (SmtpUsername info) (SmtpPassword info)
                    (SmtpServerName info @ '':'' @ SmtpPort info);
          chosen = choose_method login plain (ServerInfo.Auth server)
      in (smtp_Auth_Start plain_Start chosen server, a\<lparr>authChooser.Auth := Some chosen\<rparr>))"

subsection \<open>Messages\<close>

text \<open>
  \<open>mail.Address\<close> and its \<open>String\<close> method, \<open>mime.BEncoding.Encode\<close>,
  \<open>html2text.FromString\<close> and the date format of gomail belong to libraries; they are
  the fields of \<open>libs\<close>. An \<open>io.Reader\<close> is the bytes it yields, a \<open>time.Time\<close>
  an integer.
\<close>

record mail_Address =
  Name :: string
  Address :: string

type_synonym reader = string

type_synonym time = int

record libs =
  html2text_FromString :: "string \<Rightarrow> error + string"
  BEncoding_Encode :: "string \<Rightarrow> string \<Rightarrow> string"
  Address_String :: "mail_Address \<Rightarrow> string"
  FormatDate :: "time \<Rightarrow> string"

record mailData =
  mimeTo :: string
  smtpTo :: string
  from' :: mail_Address
  cc :: string
  replyTo :: mail_Address
  subject :: string
  htmlBody :: string
  embeddedFiles :: "string \<rightharpoonup> reader"
  mimeHeaders :: "string \<rightharpoonup> string"

definition encodeRFC2047Word :: "libs \<Rightarrow> string \<Rightarrow> string" where
  "encodeRFC2047Word l s = BEncoding_Encode l ''utf-8'' s"

text \<open>
  A \<open>gomail.Message\<close> as \<open>SendMail\<close> fills it: the character set, the header
  fields (a Go map), the body parts in order (content type and body) and the embedded
  files by name.
\<close>

record message =
  charset :: string
  header :: "string \<rightharpoonup> string list"
  parts :: "(string \<times> string) list"
  embedded :: "string \<rightharpoonup> reader"

definition gomail_NewMessage :: "string \<Rightarrow> message" where
  "gomail_NewMessage cs = \<lparr>charset = cs, header = Map.empty, parts = [], embedded = Map.empty\<rparr>"

definition SetHeaders :: "(string \<rightharpoonup> string list) \<Rightarrow> message \<Rightarrow> message" where
  "SetHeaders h m = m\<lparr>header := header m ++ h\<rparr>"

definition SetDateHeader :: "libs \<Rightarrow> string \<Rightarrow> time \<Rightarrow> message \<Rightarrow> message" where
  "SetDateHeader l field date m = m\<lparr>header := (header m)(field \<mapsto> [FormatDate l date])\<rparr>"

definition SetBody :: "string \<Rightarrow> string \<Rightarrow> message \<Rightarrow> message" where
  "SetBody contentType body m = m\<lparr>parts := [(contentType, body)]\<rparr>"

definition AddAlternative :: "string \<Rightarrow> string \<Rightarrow> message \<Rightarrow> message" where
  "AddAlternative contentType body m = m\<lparr>parts := parts m @ [(contentType, body)]\<rparr>"

text \<open>The loop calling \<open>EmbedReader\<close> for every entry of \<open>mail.embeddedFiles\<close>.\<close>

definition EmbedReaders :: "(string \<rightharpoonup> reader) \<Rightarrow> message \<Rightarrow> message" where
  "EmbedReaders files m = m\<lparr>embedded := embedded m ++ files\<rparr>"

text \<open>
  The header map \<open>SendMail\<close> builds: the literal, the two optional fields, then the
  loop over \<open>mail.mimeHeaders\<close>, each of whose keys replaces the field of that name.
\<close>

definition SendMail_headers :: "libs \<Rightarrow> mailData \<Rightarrow> (string \<rightharpoonup> string list)" where
  "SendMail_headers l mail =
     (let headers0 = [''From'' \<mapsto> [Address_String l (from' mail)],
                      ''To'' \<mapsto> [mimeTo mail],
                      ''Subject'' \<mapsto> [encodeRFC2047Word l (subject mail)],
                      ''Content-Transfer-Encoding'' \<mapsto> [''8bit''],
                      ''Auto-Submitted'' \<mapsto> [''auto-generated''],
                      ''Precedence'' \<mapsto> [''bulk'']];
          headers1 = (if Address (replyTo mail) \<noteq> []
                      then headers0(''Reply-To'' \<mapsto> [Address_String l (replyTo mail)])
                      else headers0);
          headers2 = (if cc mail \<noteq> [] then headers1(''CC'' \<mapsto> [cc mail]) else headers1)
      in (\<lambda>k. case mimeHeaders mail k of
                 Some v \<Rightarrow> Some [encodeRFC2047Word l v]
               | None \<Rightarrow> headers2 k))"

text \<open>
  The message of \<open>SendMail\<close>. When \<open>html2text.FromString\<close> returns an error, the
  plain-text body is the empty string.
\<close>

definition SendMail_message :: "libs \<Rightarrow> mailData \<Rightarrow> time \<Rightarrow> message" where
  "SendMail_message l mail date =
     (let htmlMessage = [CHR 0x0D, CHR 0x0A] @ ''<html><body>'' @ htmlBody mail @ ''</body></html>'';
          txtBody = (case html2text_FromString l (htmlBody mail) of
                       Inl err \<Rightarrow> []
                     | Inr txt \<Rightarrow> txt)
      in EmbedReaders (embeddedFiles mail)
           (AddAlternative ''text/html'' htmlMessage
             (SetBody ''text/plain'' txtBody
               (SetDateHeader l ''Date'' date
                 (SetHeaders (SendMail_headers l mail)
                   (gomail_NewMessage ''UTF-8''))))))"

subsection \<open>The network and the SMTP peer\<close>

text \<open>
  Every call that reaches the network or the peer is an \<open>event\<close>; a run carries the
  list of the events so far, and the environment answers each call from that list. Log
  calls (\<open>mlog\<close>) are not events.
\<close>

record tlsConfig =
  InsecureSkipVerify :: bool
  ServerName :: string

datatype event =
    tls_DialWithDialer "64 word" string tlsConfig
  | Dialer_Dial "64 word" string
  | smtp_NewClient string
  | Client_Hello string
  | Client_StartTLS tlsConfig
  | Client_Auth SmtpConnectionInfo
  | Client_Mail string
  | Client_Rcpt string
  | Client_Data
  | Message_WriteTo message
  | Writer_Close
  | Client_Close
  | Client_Quit
  | Conn_Close

datatype context_Context =
    context_Background
  | context_WithTimeout context_Context "64 word"
  | context_WithCancel context_Context

text \<open>
  The branch the \<open>select\<close> of \<open>NewSMTPClientAdvanced\<close> takes: \<open>ctx.Done()\<close>, with
  the value of \<open>ctx.Err()\<close> and whether the goroutine had assigned the client \<open>c\<close>, or
  an error received on the channel \<open>ec\<close>.
\<close>

datatype select_outcome =
    ctx_Done "error option" bool
  | ec_recv error

record env =
  respond :: "event list \<Rightarrow> event \<Rightarrow> error option"
  select :: "event list \<Rightarrow> context_Context \<Rightarrow> select_outcome"
  time_Now :: "event list \<Rightarrow> time"

text \<open>
  The outcome of a call: its value, its error, or a panic (a method called on a nil
  \<open>*smtp.Client\<close>).
\<close>

datatype 'a result = Ok 'a | Err error | Panic

datatype net_Conn = net_Conn

datatype client = Client string

definition time_Second :: "64 word" where
  "time_Second = 1000000000"

text \<open>A call on the connection or on the data writer.\<close>

definition call :: "env \<Rightarrow> event \<Rightarrow> event list \<Rightarrow> unit result \<times> event list" where
  "call e ev h = (case respond e h ev of None \<Rightarrow> Ok () | Some err \<Rightarrow> Err err, h @ [ev])"

text \<open>A method call on the client pointer \<open>c\<close>, nil when \<open>None\<close>.\<close>

definition client_call ::
  "env \<Rightarrow> client option \<Rightarrow> event \<Rightarrow> event list \<Rightarrow> unit result \<times> event list" where
  "client_call e c ev h = (case c of None \<Rightarrow> (Panic, h) | Some _ \<Rightarrow> call e ev h)"

subsection \<open>Connecting\<close>

definition ConnectToSMTPServerAdvanced ::
  "env \<Rightarrow> SmtpConnectionInfo \<Rightarrow> event list \<Rightarrow> net_Conn result \<times> event list" where
  "ConnectToSMTPServerAdvanced e info h =
     (let smtpAddress = SmtpServerHost info @ '':'' @ SmtpPort info;
          timeout = SmtpServerTimeout info * time_Second
      in if SmtpConnectionInfo.ConnectionSecurity info = connSecurityTls then
           (let tlsconfig = \<lparr>InsecureSkipVerify = SkipCertVerification info,
                             ServerName = SmtpServerName info\<rparr>
            in case call e (tls_DialWithDialer timeout smtpAddress tlsconfig) h of
                 (Err err, h1) \<Rightarrow>
                   (Err (errors_Wrap err ''unable to connect to the SMTP server through TLS''), h1)
               | (_, h1) \<Rightarrow> (Ok net_Conn, h1))
         else
           (case call e (Dialer_Dial timeout smtpAddress) h of
              (Err err, h1) \<Rightarrow> (Err (errors_Wrap err ''unable to connect to the SMTP server''), h1)
            | (_, h1) \<Rightarrow> (Ok net_Conn, h1)))"

definition ConnectToSMTPServer ::
  "env \<Rightarrow> SMTPConfig \<Rightarrow> event list \<Rightarrow> net_Conn result \<times> event list" where
  "ConnectToSMTPServer e config h =
     ConnectToSMTPServerAdvanced e
       \<lparr>SmtpUsername = [], SmtpPassword = [],
        SmtpServerName = Server config, SmtpServerHost = Server config,
        SmtpPort = Port config, SmtpServerTimeout = ServerTimeout config,
        SkipCertVerification = SkipServerCertificateVerification config,
        ConnectionSecurity = SMTPConfig.ConnectionSecurity config,
        Auth = False\<rparr> h"

subsection \<open>The SMTP client\<close>

text \<open>
  \<open>NewSMTPClientAdvanced\<close> after its \<open>select\<close>: the greeting, the STARTTLS
  upgrade and the authentication, on the client pointer \<open>c\<close>. The value
  \<open>c.StartTLS\<close> returns is not read by the source.
\<close>

definition NewSMTPClientAdvanced_setup ::
  "env \<Rightarrow> client option \<Rightarrow> string \<Rightarrow> SmtpConnectionInfo \<Rightarrow> event list
     \<Rightarrow> client option result \<times> event list" where
  "NewSMTPClientAdvanced_setup e c hostname info h =
     (case (if hostname \<noteq> [] then client_call e c (Client_Hello hostname) h else (Ok (), h)) of
        (Panic, h1) \<Rightarrow> (Panic, h1)
      | (Err err, h1) \<Rightarrow> (Err (errors_Wrap err ''unable to send hello message''), h1)
      | (Ok _, h1) \<Rightarrow>
          (case (if SmtpConnectionInfo.ConnectionSecurity info = connSecurityStarttls
                 then client_call e c
                        (Client_StartTLS \<lparr>InsecureSkipVerify = SkipCertVerification info,
                                          ServerName = SmtpServerName info\<rparr>) h1
                 else (Ok (), h1)) of
             (Panic, h2) \<Rightarrow> (Panic, h2)
           | (_, h2) \<Rightarrow>
               (if SmtpConnectionInfo.Auth info then
                  (case client_call e c (Client_Auth info) h2 of
                     (Panic, h3) \<Rightarrow> (Panic, h3)
                   | (Err err, h3) \<Rightarrow> (Err (errors_Wrap err ''authentication failed''), h3)
                   | (Ok _, h3) \<Rightarrow> (Ok c, h3))
                else (Ok c, h2))))"

definition NewSMTPClientAdvanced ::
  "env \<Rightarrow> context_Context \<Rightarrow> net_Conn \<Rightarrow> string \<Rightarrow> SmtpConnectionInfo \<Rightarrow> event list
     \<Rightarrow> client option result \<times> event list" where
  "NewSMTPClientAdvanced e ctx conn hostname info h =
     (let ctx1 = context_WithCancel ctx;
          serverName = SmtpServerName info @ '':'' @ SmtpPort info;
          h1 = h @ [smtp_NewClient serverName]
      in case select e h1 ctx1 of
           ctx_Done err assigned \<Rightarrow>
             (case err of
                Some err1 \<Rightarrow>
                  if Error err1 \<noteq> ''context canceled''
                  then (Err (errors_Wrap err1 ''unable to connect to the SMTP server''), h1)
                  else NewSMTPClientAdvanced_setup e
                         (if assigned then Some (Client serverName) else None) hostname info h1
              | None \<Rightarrow>
                  NewSMTPClientAdvanced_setup e
                    (if assigned then Some (Client serverName) else None) hostname info h1)
         | ec_recv err \<Rightarrow> (Err (errors_Wrap err ''unable to connect to the SMTP server''), h1))"

definition NewSMTPClient ::
  "env \<Rightarrow> context_Context \<Rightarrow> net_Conn \<Rightarrow> SMTPConfig \<Rightarrow> event list
     \<Rightarrow> client option result \<times> event list" where
  "NewSMTPClient e ctx conn config h =
     NewSMTPClientAdvanced e ctx conn (Hostname config)
       \<lparr>SmtpUsername = Username config, SmtpPassword = Password config,
        SmtpServerName = Server config, SmtpServerHost = Server config,
        SmtpPort = Port config, SmtpServerTimeout = ServerTimeout config,
        SkipCertVerification = SkipServerCertificateVerification config,
        ConnectionSecurity = SMTPConfig.ConnectionSecurity config,
        Auth = EnableSMTPAuth config\<rparr> h"

text \<open>
  \<open>TestConnection\<close>. The deferred \<open>conn.Close()\<close> runs on every return after the
  connection was opened.
\<close>

definition TestConnection :: "env \<Rightarrow> SMTPConfig \<Rightarrow> event list \<Rightarrow> unit result \<times> event list" where
  "TestConnection e config h =
     (if \<not> SendEmailNotifications config
      then (Err (errors_New ''SendEmailNotifications is not true''), h)
      else
        (case ConnectToSMTPServer e config h of
           (Panic, h1) \<Rightarrow> (Panic, h1)
         | (Err err, h1) \<Rightarrow> (Err (errors_Wrap err ''unable to connect''), h1)
         | (Ok conn, h1) \<Rightarrow>
             (let sec = ServerTimeout config;
                  ctx = context_WithTimeout context_Background (sec * time_Second);
                  (r, h5) =
                    (case NewSMTPClient e ctx conn config h1 of
                       (Panic, h2) \<Rightarrow> (Panic, h2)
                     | (Err err, h2) \<Rightarrow> (Err (errors_Wrap err ''unable to connect''), h2)
                     | (Ok c, h2) \<Rightarrow>
                         (case client_call e c Client_Close h2 of
                            (Panic, h3) \<Rightarrow> (Panic, h3)
                          | (_, h3) \<Rightarrow>
                              (case client_call e c Client_Quit h3 of
                                 (Panic, h4) \<Rightarrow> (Panic, h4)
                               | (_, h4) \<Rightarrow> (Ok (), h4))))
              in (r, h5 @ [Conn_Close]))))"

subsection \<open>Sending\<close>

definition SendMail ::
  "env \<Rightarrow> libs \<Rightarrow> client option \<Rightarrow> mailData \<Rightarrow> time \<Rightarrow> event list \<Rightarrow> unit result \<times> event list" where
  "SendMail e l c mail date h =
     (let m = SendMail_message l mail date
      in case client_call e c (Client_Mail (Address (from' mail))) h of
           (Panic, h1) \<Rightarrow> (Panic, h1)
         | (Err err, h1) \<Rightarrow> (Err (errors_Wrap err ''failed to set the from address''), h1)
         | (Ok _, h1) \<Rightarrow>
             (case client_call e c (Client_Rcpt (smtpTo mail)) h1 of
                (Panic, h2) \<Rightarrow> (Panic, h2)
              | (Err err, h2) \<Rightarrow> (Err (errors_Wrap err ''failed to set the to address''), h2)
              | (Ok _, h2) \<Rightarrow>
                  (case client_call e c Client_Data h2 of
                     (Panic, h3) \<Rightarrow> (Panic, h3)
                   | (Err err, h3) \<Rightarrow> (Err (errors_Wrap err ''failed to add email message data''), h3)
                   | (Ok _, h3) \<Rightarrow>
                       (case call e (Message_WriteTo m) h3 of
                          (Panic, h4) \<Rightarrow> (Panic, h4)
                        | (Err err, h4) \<Rightarrow>
                            (Err (errors_Wrap err ''failed to write the email message''), h4)
                        | (Ok _, h4) \<Rightarrow>
                            (case call e Writer_Close h4 of
                               (Panic, h5) \<Rightarrow> (Panic, h5)
                             | (Err err, h5) \<Rightarrow>
                                 (Err (errors_Wrap err
                                    ''failed to close connection to the SMTP server''), h5)
                             | (Ok _, h5) \<Rightarrow> (Ok (), h5))))))"

text \<open>
  \<open>sendMailUsingConfigAdvanced\<close>. The deferred calls run in reverse order on return:
  \<open>c.Close()\<close>, \<open>c.Quit()\<close>, then \<open>conn.Close()\<close>; what they return is dropped, and
  a panic in one of them is the outcome of the call.
\<close>

definition sendMailUsingConfigAdvanced ::
  "env \<Rightarrow> libs \<Rightarrow> mailData \<Rightarrow> SMTPConfig \<Rightarrow> bool \<Rightarrow> event list \<Rightarrow> unit result \<times> event list" where
  "sendMailUsingConfigAdvanced e l mail config enableComplianceFeatures h =
     (if Server config = [] then (Ok (), h)
      else
        (case ConnectToSMTPServer e config h of
           (Panic, h1) \<Rightarrow> (Panic, h1)
         | (Err err, h1) \<Rightarrow> (Err err, h1)
         | (Ok conn, h1) \<Rightarrow>
             (let sec = ServerTimeout config;
                  ctx = context_WithTimeout context_Background (sec * time_Second);
                  (r, h6) =
                    (case NewSMTPClient e ctx conn config h1 of
                       (Panic, h2) \<Rightarrow> (Panic, h2)
                     | (Err err, h2) \<Rightarrow> (Err err, h2)
                     | (Ok c, h2) \<Rightarrow>
                         (let (r3, h3) = SendMail e l c mail (time_Now e h2) h2;
                              (r4, h4) = client_call e c Client_Close h3;
                              (r5, h5) = client_call e c Client_Quit h4
                          in (if r4 = Panic \<or> r5 = Panic then Panic else r3, h5)))
              in (r, h6 @ [Conn_Close]))))"

definition SendMailWithEmbeddedFilesUsingConfig ::
  "env \<Rightarrow> libs \<Rightarrow> string \<Rightarrow> string \<Rightarrow> string \<Rightarrow> (string \<rightharpoonup> reader) \<Rightarrow> SMTPConfig \<Rightarrow> bool
     \<Rightarrow> string \<Rightarrow> event list \<Rightarrow> unit result \<times> event list" where
  "SendMailWithEmbeddedFilesUsingConfig e l to subj body files config enableComplianceFeatures
     ccMail h =
     (let fromMail = \<lparr>Name = FeedbackName config, Address = FeedbackEmail config\<rparr>;
          replyTo1 = \<lparr>Name = FeedbackName config, Address = ReplyToAddress config\<rparr>;
          mail = \<lparr>mimeTo = to, smtpTo = to, from' = fromMail, cc = ccMail, replyTo = replyTo1,
                  subject = subj, htmlBody = body, embeddedFiles = files,
                  mimeHeaders = Map.empty\<rparr>
      in sendMailUsingConfigAdvanced e l mail config enableComplianceFeatures h)"

definition SendMailUsingConfig ::
  "env \<Rightarrow> libs \<Rightarrow> string \<Rightarrow> string \<Rightarrow> string \<Rightarrow> SMTPConfig \<Rightarrow> bool \<Rightarrow> string \<Rightarrow> event list
     \<Rightarrow> unit result \<times> event list" where
  "SendMailUsingConfig e l to subj body config enableComplianceFeatures ccMail h =
     SendMailWithEmbeddedFilesUsingConfig e l to subj body Map.empty config
       enableComplianceFeatures ccMail h"

subsection \<open>Wrapped errors\<close>

text \<open>
  \<open>wrapped\<close> holds of the errors \<open>errors.Wrap\<close> builds; \<open>wrapped_or_ok\<close> holds of
  an outcome that is not an error, or is a wrapped one.
\<close>

fun wrapped :: "error \<Rightarrow> bool" where
  "wrapped (errors_Wrap err msg) = True"
| "wrapped err = False"

fun wrapped_or_ok :: "'a result \<Rightarrow> bool" where
  "wrapped_or_ok (Err x) = wrapped x"
| "wrapped_or_ok r = True"

subsection \<open>The standard library's PLAIN mechanism\<close>

text \<open>
  \<open>plainAuth.Start\<close> of net/smtp, for runs that need a concrete \<open>plain_Start\<close>:
  it refuses an unencrypted connection unless the server is the local host, then
  compares the host name.
\<close>

definition isLocalhost :: "string \<Rightarrow> bool" where
  "isLocalhost name = (name = ''localhost'' \<or> name = ''127.0.0.1'' \<or> name = ''::1'')"

definition plainAuth_Start :: plain_start where
  "plainAuth_Start identity u p h server =
     (if \<not> TLS server \<and> \<not> isLocalhost (ServerInfo.Name server)
      then Inl (errors_New ''unencrypted connection'')
      else if ServerInfo.Name server \<noteq> h then Inl (errors_New ''wrong host name'')
      else Inr (''PLAIN'', identity @ [CHR 0x00] @ u @ [CHR 0x00] @ p))"

subsection \<open>Concrete values\<close>

text \<open>
  A configuration, a message, library functions and two peers for concrete runs:
  \<open>accepting_env err\<close> accepts every command and ends the \<open>select\<close> of
  \<open>NewSMTPClientAdvanced\<close> on \<open>ctx.Done()\<close> with \<open>ctx.Err() = err\<close> and the
  client assigned; \<open>starttls_refusing_env\<close> answers \<open>c.StartTLS\<close> with an error and
  accepts every other command.
\<close>

definition example_config :: SMTPConfig where
  "example_config =
     \<lparr>SMTPConfig.ConnectionSecurity = ''STARTTLS'', SkipServerCertificateVerification = False,
      Hostname = ''app.example.com'', Server = ''mail.example.com'', Port = ''587'',
      ServerTimeout = 10, Username = [], Password = [], EnableSMTPAuth = False,
      SendEmailNotifications = True, FeedbackName = ''Team'',
      FeedbackEmail = ''team@example.com'', ReplyToAddress = []\<rparr>"

definition example_mail :: mailData where
  "example_mail =
     \<lparr>mimeTo = ''user@example.com'', smtpTo = ''user@example.com'',
      from' = \<lparr>Name = ''Team'', Address = ''team@example.com''\<rparr>, cc = [],
      replyTo = \<lparr>Name = ''Team'', Address = []\<rparr>, subject = ''Hello'',
      htmlBody = ''<p>Hello</p>'', embeddedFiles = Map.empty, mimeHeaders = Map.empty\<rparr>"

definition example_libs :: libs where
  "example_libs =
     \<lparr>html2text_FromString = (\<lambda>s. Inl (lib_error ''html2text: cannot parse'')),
      BEncoding_Encode = (\<lambda>cs s. ''=?'' @ cs @ ''?b?'' @ s @ ''?=''),
      Address_String = (\<lambda>a. Name a @ '' <'' @ Address a @ ''>''),
      FormatDate = (\<lambda>t. ''Thu, 01 Jan 1970 00:00:00 +0000'')\<rparr>"

definition accepting_env :: "error \<Rightarrow> env" where
  "accepting_env err =
     \<lparr>respond = (\<lambda>h ev. None),
      select = (\<lambda>h ctx. ctx_Done (Some err) True),
      time_Now = (\<lambda>h. 0)\<rparr>"

definition starttls_refusing_env :: env where
  "starttls_refusing_env =
     \<lparr>respond = (\<lambda>h ev. case ev of
                   Client_StartTLS cfg \<Rightarrow> Some (lib_error ''454 TLS not available'')
                 | _ \<Rightarrow> None),
      select = (\<lambda>h ctx. ctx_Done (Some context_Canceled) True),
      time_Now = (\<lambda>h. 0)\<rparr>"

definition example_chooser :: authChooser where
  "example_chooser =
     \<lparr>authChooser.Auth = None,
      connectionInfo =
        \<lparr>SmtpUsername = ''user'', SmtpPassword = ''secret'',
         SmtpServerName = ''mail.example.com'', SmtpServerHost = ''mail.example.com'',
         SmtpPort = ''587'', SmtpServerTimeout = 10, SkipCertVerification = False,
         ConnectionSecurity = ''STARTTLS'', Auth = True\<rparr>\<rparr>"

section \<open>Channel bookmarks (server/public/model)\<close>

text \<open>
  Modelled from the spec: the struct \<open>ChannelBookmark\<close>. The file channel_bookmark.go
  is missing; its tests (channel_bookmark_test.go) are present. The fields are those the
  tests set; the timestamps and the sort position are integers.
\<close>

record ChannelBookmark =
  Id :: string
  CreateAt :: int
  UpdateAt :: int
  DeleteAt :: int
  ChannelId :: string
  OwnerId :: string
  FileId :: string
  DisplayName :: string
  SortOrder :: int
  LinkUrl :: string
  ImageUrl :: string
  Emoji :: string
  Type :: string
  OriginalId :: string
  ParentId :: string

text \<open>
  Modelled from the spec: the type tags \<open>ChannelBookmarkLink\<close> and
  \<open>ChannelBookmarkFile\<close> are missing with channel_bookmark.go; the spec names the
  two tags link and file. This is the tag of a link-backed bookmark.
\<close>

definition ChannelBookmarkLink :: string where
  "ChannelBookmarkLink = ''link''"

text \<open>Modelled from the spec: the tag of a file-backed bookmark.\<close>

definition ChannelBookmarkFile :: string where
  "ChannelBookmarkFile = ''file''"

text \<open>
  Modelled from the spec: the tests of well-formedness \<open>IsValidId\<close> and
  \<open>IsValidHTTPURL\<close> are missing and the spec says no more than well-formed, so the
  two are parameters.
\<close>

record format_checks =
  IsValidId :: "string \<Rightarrow> bool"
  IsValidHTTPURL :: "string \<Rightarrow> bool"

text \<open>
  Modelled from the spec: the failures \<open>IsValid\<close> reports, one for each check of the
  spec's list.
\<close>

datatype validation_failure =
    invalid_id | invalid_owner_id | invalid_channel_id | missing_display_name | invalid_type
  | invalid_link_url | invalid_image_url | invalid_file_id | link_and_file
  | invalid_original_id | invalid_parent_id | missing_create_at | missing_update_at

text \<open>
  Modelled from the spec: \<open>IsValid\<close> of the missing channel_bookmark.go. It returns
  the first failure, in the order of the spec's list: identifier, owner and channel
  reference, display name, type tag, the field the type tag requires, the optional
  references, the timestamps. The image URL of a link bookmark is checked when it is
  present, as the case \<open>bookmark of type link with invalid image url\<close> of
  \<open>TestChannelBookmarkIsValid\<close> expects. Of the two fields a type tag can require,
  the URL and the file reference, exactly one is to be populated (the invariant of the
  spec's data model): a record with both is refused.
\<close>

definition IsValid :: "format_checks \<Rightarrow> ChannelBookmark \<Rightarrow> validation_failure option" where
  "IsValid v b =
     (if Id b = [] \<or> \<not> IsValidId v (Id b) then Some invalid_id
      else if OwnerId b = [] \<or> \<not> IsValidId v (OwnerId b) then Some invalid_owner_id
      else if ChannelId b = [] \<or> \<not> IsValidId v (ChannelId b) then Some invalid_channel_id
      else if DisplayName b = [] then Some missing_display_name
      else if \<not> (Type b = ChannelBookmarkFile \<or> Type b = ChannelBookmarkLink) then Some invalid_type
      else if Type b = ChannelBookmarkLink \<and> (LinkUrl b = [] \<or> \<not> IsValidHTTPURL v (LinkUrl b))
        then Some invalid_link_url
      else if Type b = ChannelBookmarkLink \<and> ImageUrl b \<noteq> [] \<and> \<not> IsValidHTTPURL v (ImageUrl b)
        then Some invalid_image_url
      else if Type b = ChannelBookmarkFile \<and> (FileId b = [] \<or> \<not> IsValidId v (FileId b))
        then Some invalid_file_id
      else if LinkUrl b \<noteq> [] \<and> FileId b \<noteq> [] then Some link_and_file
      else if OriginalId b \<noteq> [] \<and> \<not> IsValidId v (OriginalId b) then Some invalid_original_id
      else if ParentId b \<noteq> [] \<and> \<not> IsValidId v (ParentId b) then Some invalid_parent_id
      else if CreateAt b = 0 then Some missing_create_at
      else if UpdateAt b = 0 then Some missing_update_at
      else None)"

text \<open>
  Modelled from the spec: \<open>PreSave\<close> and \<open>PreUpdate\<close> of the missing
  channel_bookmark.go; the clock reading (milliseconds) is the argument \<open>now\<close>. On
  the first save, when the record has no creation timestamp, both timestamps become the
  current time. A record that has a creation timestamp keeps it, and its update
  timestamp takes that value: \<open>TestChannelBookmarkPreUpdate\<close> saves a record with
  \<open>CreateAt: 2\<close> and, with no pause, expects the update that follows to give a
  greater update timestamp.
\<close>

definition PreSave :: "int \<Rightarrow> ChannelBookmark \<Rightarrow> ChannelBookmark" where
  "PreSave now b =
     (let created = (if CreateAt b = 0 then now else CreateAt b)
      in b\<lparr>CreateAt := created, UpdateAt := created\<rparr>)"


text \<open>
  Modelled from the spec: the decimal text of a timestamp, for the fingerprint below
  (the formatting is missing with channel_bookmark.go): the digit of a number below
  ten, the digits of a natural number, and a minus sign before those of a negative
  integer.
\<close>

definition digit :: "nat \<Rightarrow> char" where
  "digit d = char_of (48 + d)"

fun decimal_nat :: "nat \<Rightarrow> string" where
  "decimal_nat n = (if n < 10 then [digit n] else decimal_nat (n div 10) @ [digit (n mod 10)])"

definition decimal :: "int \<Rightarrow> string" where
  "decimal i = (if i < 0 then CHR ''-'' # decimal_nat (nat (- i)) else decimal_nat (nat i))"

text \<open>
  Modelled from the spec: \<open>Etag\<close> of the missing channel_bookmark.go, a fingerprint
  derived from the identifier and the update timestamp. It is the text that joins the
  version prefix \<open>CurrentVersion\<close> (a parameter), the identifier and the update
  timestamp in decimal, with dots between them.
\<close>

definition Etag :: "string \<Rightarrow> ChannelBookmark \<Rightarrow> string" where
  "Etag CurrentVersion b = CurrentVersion @ ''.'' @ Id b @ ''.'' @ decimal (UpdateAt b)"

text \<open>The number a string of decimal digits stands for: the inverse of \<open>decimal_nat\<close>.\<close>

definition digits_value :: "string \<Rightarrow> nat" where
  "digits_value s = foldl (\<lambda>a c. 10 * a + (of_char c - 48)) 0 s"

subsection \<open>Concrete bookmarks\<close>

text \<open>
  An instance of the two parameters (identifiers of 26 lower-case letters and digits,
  URLs that start with \<open>http://\<close> or \<open>https://\<close>) and records after the cases of
  \<open>TestChannelBookmarkIsValid\<close>.
\<close>

definition example_checks :: format_checks where
  "example_checks =
     \<lparr>IsValidId = (\<lambda>s. length s = 26 \<and> set s \<subseteq> set ''abcdefghijklmnopqrstuvwxyz0123456789''),
      IsValidHTTPURL = (\<lambda>s. (take 7 s = ''http://'' \<and> 7 < length s)
                            \<or> (take 8 s = ''https://'' \<and> 8 < length s))\<rparr>"

definition example_bookmark :: ChannelBookmark where
  "example_bookmark =
     \<lparr>Id = ''abcdefghijklmnopqrstuvwxy1'', CreateAt = 2, UpdateAt = 3, DeleteAt = 4,
      ChannelId = ''abcdefghijklmnopqrstuvwxy2'', OwnerId = ''abcdefghijklmnopqrstuvwxy3'',
      FileId = [], DisplayName = ''display name'', SortOrder = 0,
      LinkUrl = ''https://mattermost.com'', ImageUrl = [], Emoji = [],
      Type = ChannelBookmarkLink, OriginalId = [], ParentId = []\<rparr>"

definition bookmark_invalid_image_url :: ChannelBookmark where
  "bookmark_invalid_image_url = example_bookmark\<lparr>ImageUrl := ''invalid''\<rparr>"

definition bookmark_file_without_file_id :: ChannelBookmark where
  "bookmark_file_without_file_id = example_bookmark\<lparr>LinkUrl := [], Type := ChannelBookmarkFile\<rparr>"

definition bookmark_without_type :: ChannelBookmark where
  "bookmark_without_type = example_bookmark\<lparr>Type := []\<rparr>"

definition bookmark_invalid_parent_id :: ChannelBookmark where
  "bookmark_invalid_parent_id = example_bookmark\<lparr>ParentId := ''invalid''\<rparr>"

definition fresh_bookmark :: ChannelBookmark where
  "fresh_bookmark = example_bookmark\<lparr>CreateAt := 0, UpdateAt := 0, DeleteAt := 0\<rparr>"

section \<open>Properties of the mail sender\<close>

lemma choose_method_iff:
  "choose_method current plain methods = (if ''PLAIN'' \<in> set methods then plain else current)"
  by (induction methods) auto

text \<open>
  C6: \<open>loginAuth.Start\<close> returns an error whenever the server reports no TLS
  (\<open>unencrypted connection\<close>) or, with TLS, its name differs from the expected host
  (\<open>wrong host name\<close>); when the session is encrypted and the names match it succeeds
  and announces the mechanism \<open>LOGIN\<close> with an empty first response.
\<close>

theorem loginAuth_Start_rejects_or_announces:
  "(\<not> TLS server \<longrightarrow>
      loginAuth_Start a server = Inl (errors_New ''unencrypted connection''))
   \<and> (TLS server \<and> ServerInfo.Name server \<noteq> host a \<longrightarrow>
      loginAuth_Start a server = Inl (errors_New ''wrong host name''))
   \<and> ((\<not> TLS server \<or> ServerInfo.Name server \<noteq> host a) \<longrightarrow>
      (\<exists>err. loginAuth_Start a server = Inl err))
   \<and> (TLS server \<and> ServerInfo.Name server = host a \<longrightarrow>
      loginAuth_Start a server = Inr (''LOGIN'', []))"
  by (simp add: loginAuth_Start_def)

theorem loginAuth_Start_rejects_or_announces_witness:
  "loginAuth_Start \<lparr>username = ''u'', password = ''p'', host = ''mail.example.com:587''\<rparr>
        \<lparr>ServerInfo.Name = ''mail.example.com:587'', TLS = False, Auth = [''LOGIN'']\<rparr> =
      Inl (errors_New ''unencrypted connection'')
   \<and> loginAuth_Start \<lparr>username = ''u'', password = ''p'', host = ''mail.example.com:587''\<rparr>
        \<lparr>ServerInfo.Name = ''other.example.com:587'', TLS = True, Auth = [''LOGIN'']\<rparr> =
      Inl (errors_New ''wrong host name'')
   \<and> loginAuth_Start \<lparr>username = ''u'', password = ''p'', host = ''mail.example.com:587''\<rparr>
        \<lparr>ServerInfo.Name = ''mail.example.com:587'', TLS = True, Auth = [''LOGIN'']\<rparr> =
      Inr (''LOGIN'', [])"
  using
    loginAuth_Start_rejects_or_announces
      [of "\<lparr>ServerInfo.Name = ''mail.example.com:587'', TLS = False, Auth = [''LOGIN'']\<rparr>"
          "\<lparr>username = ''u'', password = ''p'', host = ''mail.example.com:587''\<rparr>"]
    loginAuth_Start_rejects_or_announces
      [of "\<lparr>ServerInfo.Name = ''other.example.com:587'', TLS = True, Auth = [''LOGIN'']\<rparr>"
          "\<lparr>username = ''u'', password = ''p'', host = ''mail.example.com:587''\<rparr>"]
    loginAuth_Start_rejects_or_announces
      [of "\<lparr>ServerInfo.Name = ''mail.example.com:587'', TLS = True, Auth = [''LOGIN'']\<rparr>"
          "\<lparr>username = ''u'', password = ''p'', host = ''mail.example.com:587''\<rparr>"]
  by simp

text \<open>
  C7: \<open>authChooser.Start\<close> selects the mechanism from the methods the server
  advertises: the chooser holds the PLAIN mechanism if and only if \<open>PLAIN\<close> is among
  \<open>server.Auth\<close>, and the LOGIN mechanism otherwise; the result is that of starting
  the selected mechanism.
\<close>

theorem authChooser_Start_selects_by_capability:
  "((\<exists>identity u p h. authChooser.Auth (snd (authChooser_Start plain_Start a server)) =
        Some (PlainAuthValue identity u p h)) =
      (''PLAIN'' \<in> set (ServerInfo.Auth server)))
   \<and> authChooser.Auth (snd (authChooser_Start plain_Start a server)) =
     Some (if ''PLAIN'' \<in> set (ServerInfo.Auth server)
           then smtp_PlainAuth [] (SmtpUsername (connectionInfo a)) (SmtpPassword (connectionInfo a))
                  (SmtpServerName (connectionInfo a) @ '':'' @ SmtpPort (connectionInfo a))
           else LoginAuth (SmtpUsername (connectionInfo a)) (SmtpPassword (connectionInfo a))
                  (SmtpServerName (connectionInfo a) @ '':'' @ SmtpPort (connectionInfo a)))
   \<and> fst (authChooser_Start plain_Start a server) =
       (if ''PLAIN'' \<in> set (ServerInfo.Auth server)
        then plain_Start [] (SmtpUsername (connectionInfo a)) (SmtpPassword (connectionInfo a))
               (SmtpServerName (connectionInfo a) @ '':'' @ SmtpPort (connectionInfo a)) server
        else loginAuth_Start
               \<lparr>username = SmtpUsername (connectionInfo a), password = SmtpPassword (connectionInfo a),
                host = SmtpServerName (connectionInfo a) @ '':'' @ SmtpPort (connectionInfo a)\<rparr> server)"
  by (simp add: authChooser_Start_def Let_def choose_method_iff LoginAuth_def smtp_PlainAuth_def)

theorem authChooser_Start_selects_by_capability_witness:
  "authChooser.Auth (snd (authChooser_Start plainAuth_Start example_chooser
       \<lparr>ServerInfo.Name = ''mail.example.com:587'', TLS = True, Auth = [''LOGIN'', ''PLAIN'']\<rparr>)) =
     Some (PlainAuthValue [] ''user'' ''secret'' ''mail.example.com:587'')
   \<and> authChooser.Auth (snd (authChooser_Start plainAuth_Start example_chooser
       \<lparr>ServerInfo.Name = ''mail.example.com:587'', TLS = True, Auth = [''LOGIN'', ''CRAM-MD5'']\<rparr>)) =
     Some (LoginAuthValue
            \<lparr>username = ''user'', password = ''secret'', host = ''mail.example.com:587''\<rparr>)
   \<and> fst (authChooser_Start plainAuth_Start example_chooser
       \<lparr>ServerInfo.Name = ''mail.example.com:587'', TLS = True, Auth = [''LOGIN'', ''CRAM-MD5'']\<rparr>) =
     Inr (''LOGIN'', [])"
  using
    authChooser_Start_selects_by_capability [of plainAuth_Start example_chooser
      "\<lparr>ServerInfo.Name = ''mail.example.com:587'', TLS = True, Auth = [''LOGIN'', ''PLAIN'']\<rparr>"]
    authChooser_Start_selects_by_capability [of plainAuth_Start example_chooser
      "\<lparr>ServerInfo.Name = ''mail.example.com:587'', TLS = True, Auth = [''LOGIN'', ''CRAM-MD5'']\<rparr>"]
  by (simp add: example_chooser_def smtp_PlainAuth_def LoginAuth_def loginAuth_Start_def)

subsection \<open>Runs against a peer\<close>

text \<open>
  C9: with an empty server address in the configuration,
  \<open>sendMailUsingConfigAdvanced\<close> returns no error and adds no event: no connection is
  opened and nothing is transmitted.
\<close>

theorem sendMail_empty_server_no_connection:
  "Server config = [] \<Longrightarrow>
     sendMailUsingConfigAdvanced e l mail config enableComplianceFeatures h = (Ok (), h)"
  by (simp add: sendMailUsingConfigAdvanced_def)

theorem sendMail_empty_server_no_connection_witness:
  "Server (example_config\<lparr>Server := []\<rparr>) = []
   \<and> sendMailUsingConfigAdvanced starttls_refusing_env example_libs example_mail
         (example_config\<lparr>Server := []\<rparr>) False [] = (Ok (), [])"
  using sendMail_empty_server_no_connection
          [of "example_config\<lparr>Server := []\<rparr>" starttls_refusing_env example_libs
              example_mail False "[]"]
  by (simp add: example_config_def)

lemma SendMail_all_ok:
  "\<forall>h' ev. respond e h' ev = None \<Longrightarrow>
   SendMail e l (Some cl) mail date h =
     (Ok (), h @ [Client_Mail (Address (from' mail)), Client_Rcpt (smtpTo mail), Client_Data,
                  Message_WriteTo (SendMail_message l mail date), Writer_Close])"
  by (simp add: SendMail_def client_call_def call_def Let_def)

lemma encodeRFC2047Word_html2text_update:
  "encodeRFC2047Word (l\<lparr>html2text_FromString := f\<rparr>) = encodeRFC2047Word l"
  by (simp add: fun_eq_iff encodeRFC2047Word_def)

lemma Address_String_html2text_update:
  "Address_String (l\<lparr>html2text_FromString := f\<rparr>) = Address_String l"
  by simp

lemma SendMail_headers_html2text_update:
  "SendMail_headers (l\<lparr>html2text_FromString := f\<rparr>) mail = SendMail_headers l mail"
  unfolding SendMail_headers_def encodeRFC2047Word_html2text_update Address_String_html2text_update
  by (rule refl)

lemma SendMail_message_html2text_update:
  "html2text_FromString l (htmlBody mail) = Inl err \<Longrightarrow> f (htmlBody mail) = Inr [] \<Longrightarrow>
   SendMail_message (l\<lparr>html2text_FromString := f\<rparr>) mail date = SendMail_message l mail date"
  by (simp add: SendMail_message_def SendMail_headers_html2text_update SetDateHeader_def)

text \<open>
  C10: when \<open>html2text.FromString\<close> fails on the HTML body, \<open>SendMail\<close> builds the
  message with an empty \<open>text/plain\<close> part next to the HTML part and goes on: the run
  is the one a conversion to the empty text gives, so the failure is never the error
  returned, and with a peer that accepts every command the message is written and the
  result is success.
\<close>

theorem SendMail_conversion_failure_not_fatal:
  "html2text_FromString l (htmlBody mail) = Inl err \<Longrightarrow>
     parts (SendMail_message l mail date) =
       [(''text/plain'', []),
        (''text/html'', [CHR 0x0D, CHR 0x0A] @ ''<html><body>'' @ htmlBody mail @ ''</body></html>'')]
   \<and> SendMail e l c mail date h =
       SendMail e (l\<lparr>html2text_FromString := (\<lambda>s. Inr [])\<rparr>) c mail date h
   \<and> (c \<noteq> None \<and> (\<forall>h' ev. respond e h' ev = None) \<longrightarrow>
        SendMail e l c mail date h =
          (Ok (), h @ [Client_Mail (Address (from' mail)), Client_Rcpt (smtpTo mail), Client_Data,
                       Message_WriteTo (SendMail_message l mail date), Writer_Close]))"
proof (intro conjI impI)
  assume a: "html2text_FromString l (htmlBody mail) = Inl err"
  show "parts (SendMail_message l mail date) =
       [(''text/plain'', []),
        (''text/html'', [CHR 0x0D, CHR 0x0A] @ ''<html><body>'' @ htmlBody mail @ ''</body></html>'')]"
    using a by (simp add: SendMail_message_def EmbedReaders_def AddAlternative_def SetBody_def Let_def)
  have "SendMail_message l mail date =
      SendMail_message (l\<lparr>html2text_FromString := (\<lambda>s. Inr [])\<rparr>) mail date"
    using a by (simp add: SendMail_message_html2text_update)
  then show "SendMail e l c mail date h =
       SendMail e (l\<lparr>html2text_FromString := (\<lambda>s. Inr [])\<rparr>) c mail date h"
    by (simp add: SendMail_def)
next
  assume "c \<noteq> None \<and> (\<forall>h' ev. respond e h' ev = None)"
  then obtain cl where "c = Some cl" and r: "\<forall>h' ev. respond e h' ev = None" by auto
  then show "SendMail e l c mail date h =
          (Ok (), h @ [Client_Mail (Address (from' mail)), Client_Rcpt (smtpTo mail), Client_Data,
                       Message_WriteTo (SendMail_message l mail date), Writer_Close])"
    using SendMail_all_ok[OF r] by simp
qed

theorem SendMail_conversion_failure_not_fatal_witness:
  "html2text_FromString example_libs (htmlBody example_mail) =
     Inl (lib_error ''html2text: cannot parse'')
   \<and> parts (SendMail_message example_libs example_mail 0) =
       [(''text/plain'', []),
        (''text/html'', [CHR 0x0D, CHR 0x0A] @ ''<html><body><p>Hello</p></body></html>'')]
   \<and> SendMail (accepting_env context_Canceled) example_libs (Some (Client ''mail.example.com:587''))
         example_mail 0 [] =
       (Ok (), [Client_Mail ''team@example.com'', Client_Rcpt ''user@example.com'', Client_Data,
                Message_WriteTo (SendMail_message example_libs example_mail 0), Writer_Close])"
proof -
  have f: "html2text_FromString example_libs (htmlBody example_mail) =
             Inl (lib_error ''html2text: cannot parse'')"
    by (simp add: example_libs_def)
  have r: "\<forall>h' ev. respond (accepting_env context_Canceled) h' ev = None"
    by (simp add: accepting_env_def)
  have m: "htmlBody example_mail = ''<p>Hello</p>''"
    "Address (from' example_mail) = ''team@example.com''"
    "smtpTo example_mail = ''user@example.com''"
    by (simp_all add: example_mail_def)
  show ?thesis
    using f r SendMail_conversion_failure_not_fatal[OF f, of 0 "accepting_env context_Canceled"
                     "Some (Client ''mail.example.com:587'')" "[]"]
    by (auto simp: m)
qed

lemma ConnectToSMTPServer_ok:
  "\<forall>h' ev. respond e h' ev = None \<Longrightarrow>
   \<exists>ev. ConnectToSMTPServer e config h = (Ok net_Conn, h @ [ev])"
  by (simp add: ConnectToSMTPServer_def ConnectToSMTPServerAdvanced_def call_def Let_def)

lemma NewSMTPClientAdvanced_setup_all_ok:
  "\<forall>h' ev. respond e h' ev = None \<Longrightarrow>
   \<exists>h1. NewSMTPClientAdvanced_setup e (Some cl) hostname info h = (Ok (Some cl), h1)"
  by (simp add: NewSMTPClientAdvanced_setup_def client_call_def call_def)

lemma NewSMTPClient_cancel_text:
  assumes r: "\<forall>h' ev. respond e h' ev = None"
    and s: "\<forall>h' ctx. select e h' ctx = ctx_Done (Some err) True"
  shows "Error err = ''context canceled'' \<Longrightarrow>
           \<exists>cl h1. NewSMTPClient e ctx conn config h = (Ok (Some cl), h1)"
    and "Error err \<noteq> ''context canceled'' \<Longrightarrow>
           \<exists>h1. NewSMTPClient e ctx conn config h =
             (Err (errors_Wrap err ''unable to connect to the SMTP server''), h1)"
proof -
  assume t: "Error err = ''context canceled''"
  obtain h1 where
    "NewSMTPClientAdvanced_setup e (Some (Client (Server config @ '':'' @ Port config)))
      (Hostname config)
      \<lparr>SmtpUsername = Username config, SmtpPassword = Password config,
        SmtpServerName = Server config, SmtpServerHost = Server config,
        SmtpPort = Port config, SmtpServerTimeout = ServerTimeout config,
        SkipCertVerification = SkipServerCertificateVerification config,
        ConnectionSecurity = SMTPConfig.ConnectionSecurity config,
        Auth = EnableSMTPAuth config\<rparr>
      (h @ [smtp_NewClient (Server config @ '':'' @ Port config)]) =
        (Ok (Some (Client (Server config @ '':'' @ Port config))), h1)"
    using NewSMTPClientAdvanced_setup_all_ok[OF r] by blast
  then show "\<exists>cl h1. NewSMTPClient e ctx conn config h = (Ok (Some cl), h1)"
    using s t by (simp add: NewSMTPClient_def NewSMTPClientAdvanced_def Let_def)
next
  assume t: "Error err \<noteq> ''context canceled''"
  then show "\<exists>h1. NewSMTPClient e ctx conn config h =
             (Err (errors_Wrap err ''unable to connect to the SMTP server''), h1)"
    using s by (simp add: NewSMTPClient_def NewSMTPClientAdvanced_def Let_def)
qed

text \<open>
  C8: with \<open>SendEmailNotifications\<close> false, \<open>TestConnection\<close> returns the error
  \<open>SendEmailNotifications is not true\<close> and adds no event, so no connection is
  attempted. With notifications enabled, a peer that accepts every command, and the
  \<open>select\<close> of the client set-up ending on \<open>ctx.Done()\<close> with an error \<open>err\<close>, the
  self-test succeeds when the message of \<open>err\<close> is the text \<open>context canceled\<close>, and
  returns the wrapped \<open>err\<close> when the message is any other text: the message alone
  decides.
\<close>

theorem TestConnection_disabled_and_cancel_text:
  "(\<not> SendEmailNotifications config \<longrightarrow>
      TestConnection e config h = (Err (errors_New ''SendEmailNotifications is not true''), h))
   \<and> (SendEmailNotifications config \<and> (\<forall>h' ev. respond e h' ev = None)
        \<and> (\<forall>h' ctx. select e h' ctx = ctx_Done (Some err) True) \<longrightarrow>
        (Error err = ''context canceled'' \<longrightarrow> fst (TestConnection e config h) = Ok ())
      \<and> (Error err \<noteq> ''context canceled'' \<longrightarrow>
           fst (TestConnection e config h) =
             Err (errors_Wrap (errors_Wrap err ''unable to connect to the SMTP server'')
                    ''unable to connect'')))"
proof (intro conjI impI)
  assume "\<not> SendEmailNotifications config"
  then show "TestConnection e config h =
      (Err (errors_New ''SendEmailNotifications is not true''), h)"
    by (simp add: TestConnection_def)
next
  assume a: "SendEmailNotifications config \<and> (\<forall>h' ev. respond e h' ev = None)
        \<and> (\<forall>h' ctx. select e h' ctx = ctx_Done (Some err) True)"
  then have r: "\<forall>h' ev. respond e h' ev = None"
    and s: "\<forall>h' ctx. select e h' ctx = ctx_Done (Some err) True" by simp_all
  obtain ev where c: "ConnectToSMTPServer e config h = (Ok net_Conn, h @ [ev])"
    using ConnectToSMTPServer_ok[OF r] by blast
  {
    assume t: "Error err = ''context canceled''"
    obtain cl h1 where n: "NewSMTPClient e
        (context_WithTimeout context_Background (ServerTimeout config * time_Second))
        net_Conn config (h @ [ev]) = (Ok (Some cl), h1)"
      using NewSMTPClient_cancel_text(1)[OF r s t] by blast
    show "fst (TestConnection e config h) = Ok ()"
      using a c n r by (simp add: TestConnection_def Let_def client_call_def call_def)
  }
  {
    assume t: "Error err \<noteq> ''context canceled''"
    obtain h1 where n: "NewSMTPClient e
        (context_WithTimeout context_Background (ServerTimeout config * time_Second))
        net_Conn config (h @ [ev]) =
          (Err (errors_Wrap err ''unable to connect to the SMTP server''), h1)"
      using NewSMTPClient_cancel_text(2)[OF r s t] by blast
    show "fst (TestConnection e config h) =
             Err (errors_Wrap (errors_Wrap err ''unable to connect to the SMTP server'')
                    ''unable to connect'')"
      using a c n by (simp add: TestConnection_def Let_def)
  }
qed

theorem TestConnection_disabled_and_cancel_text_witness:
  "TestConnection (accepting_env context_DeadlineExceeded)
       (example_config\<lparr>SendEmailNotifications := False\<rparr>) [] =
     (Err (errors_New ''SendEmailNotifications is not true''), [])
   \<and> fst (TestConnection (accepting_env (errors_New ''context canceled'')) example_config []) = Ok ()
   \<and> fst (TestConnection (accepting_env context_DeadlineExceeded) example_config []) =
       Err (errors_Wrap (errors_Wrap context_DeadlineExceeded
              ''unable to connect to the SMTP server'') ''unable to connect'')"
  using
    TestConnection_disabled_and_cancel_text
      [of "example_config\<lparr>SendEmailNotifications := False\<rparr>"
          "accepting_env context_DeadlineExceeded" "[]" context_DeadlineExceeded]
    TestConnection_disabled_and_cancel_text
      [of example_config "accepting_env (errors_New ''context canceled'')" "[]"
          "errors_New ''context canceled''"]
    TestConnection_disabled_and_cancel_text
      [of example_config "accepting_env context_DeadlineExceeded" "[]" context_DeadlineExceeded]
  by (simp add: example_config_def accepting_env_def)

subsection \<open>What a send returns\<close>

text \<open>
  Every error a send returns is one \<open>errors.Wrap\<close> built, with the message of the
  call that failed: the dial, the greeting of \<open>smtp.NewClient\<close>, \<open>Hello\<close>,
  \<open>Auth\<close>, \<open>Mail\<close>, \<open>Rcpt\<close>, \<open>Data\<close>, the write of the message, the close of
  the writer. No message belongs to \<open>StartTLS\<close>.
\<close>

lemma ConnectToSMTPServer_error_wrapped:
  "wrapped_or_ok (fst (ConnectToSMTPServer e config h)) \<and> fst (ConnectToSMTPServer e config h) \<noteq> Panic"
  by (simp add: ConnectToSMTPServer_def ConnectToSMTPServerAdvanced_def call_def Let_def
      split: option.split)

lemma NewSMTPClientAdvanced_setup_error_wrapped:
  "wrapped_or_ok (fst (NewSMTPClientAdvanced_setup e c hostname info h))"
  by (simp add: NewSMTPClientAdvanced_setup_def client_call_def call_def
      split: option.split)

lemma NewSMTPClient_error_wrapped:
  "wrapped_or_ok (fst (NewSMTPClient e ctx conn config h))"
  by (simp add: NewSMTPClient_def NewSMTPClientAdvanced_def Let_def
      NewSMTPClientAdvanced_setup_error_wrapped
      split: select_outcome.split option.split)

lemma SendMail_error_wrapped:
  "wrapped_or_ok (fst (SendMail e l c mail date h))"
  by (simp add: SendMail_def client_call_def call_def Let_def split: option.split)

lemma sendMailUsingConfigAdvanced_error_wrapped:
  "wrapped_or_ok (fst (sendMailUsingConfigAdvanced e l mail config b h))"
proof (cases "Server config = []")
  case True
  then show ?thesis by (simp add: sendMailUsingConfigAdvanced_def)
next
  case False
  obtain r1 h1 where c: "ConnectToSMTPServer e config h = (r1, h1)"
    by (cases "ConnectToSMTPServer e config h")
  have w1: "wrapped_or_ok r1" "r1 \<noteq> Panic"
    using ConnectToSMTPServer_error_wrapped[of e config h] c by simp_all
  show ?thesis
  proof (cases r1)
    case (Err y)
    with w1 False c show ?thesis by (simp add: sendMailUsingConfigAdvanced_def)
  next
    case Panic
    with w1 show ?thesis by simp
  next
    case (Ok conn)
    obtain r2 h2 where n: "NewSMTPClient e
        (context_WithTimeout context_Background (ServerTimeout config * time_Second))
        conn config h1 = (r2, h2)"
      by (cases "NewSMTPClient e
        (context_WithTimeout context_Background (ServerTimeout config * time_Second))
        conn config h1")
    have w2: "wrapped_or_ok r2"
      using NewSMTPClient_error_wrapped[of e
        "context_WithTimeout context_Background (ServerTimeout config * time_Second)"
        conn config h1] n by simp
    show ?thesis
    proof (cases r2)
      case (Ok cl)
      obtain r3 h3 where m: "SendMail e l cl mail (time_Now e h2) h2 = (r3, h3)"
        by (cases "SendMail e l cl mail (time_Now e h2) h2")
      have w3: "wrapped_or_ok r3"
        using SendMail_error_wrapped[of e l cl mail "time_Now e h2" h2] m by simp
      show ?thesis
        using False c \<open>r1 = Ok conn\<close> n Ok m w3
        by (simp add: sendMailUsingConfigAdvanced_def Let_def split: prod.split)
    next
      case (Err y)
      with False c \<open>r1 = Ok conn\<close> n w2 show ?thesis
        by (simp add: sendMailUsingConfigAdvanced_def Let_def)
    next
      case Panic
      with False c \<open>r1 = Ok conn\<close> n show ?thesis
        by (simp add: sendMailUsingConfigAdvanced_def Let_def)
    qed
  qed
qed

text \<open>
  The error of \<open>c.StartTLS\<close> is dropped: with connection security \<open>STARTTLS\<close> and
  no authentication, the set-up of the client succeeds whatever \<open>c.StartTLS\<close>
  returned.
\<close>

lemma NewSMTPClientAdvanced_setup_drops_StartTLS_error:
  "SmtpConnectionInfo.ConnectionSecurity info = connSecurityStarttls \<Longrightarrow>
   \<not> SmtpConnectionInfo.Auth info \<Longrightarrow>
   respond e h (Client_StartTLS \<lparr>InsecureSkipVerify = SkipCertVerification info,
                                 ServerName = SmtpServerName info\<rparr>) = Some err \<Longrightarrow>
   NewSMTPClientAdvanced_setup e (Some cl) [] info h =
     (Ok (Some cl), h @ [Client_StartTLS \<lparr>InsecureSkipVerify = SkipCertVerification info,
                                          ServerName = SmtpServerName info\<rparr>])"
  by (simp add: NewSMTPClientAdvanced_setup_def client_call_def call_def)

text \<open>
  C2: every phase of a send that fails is to come back as a wrapped error, the
  STARTTLS upgrade among them. The run below is a send with connection security
  \<open>STARTTLS\<close> to a peer that answers \<open>c.StartTLS\<close> with an error: the error is
  dropped, the envelope and the message follow on the connection as it is, and the
  result is success.
\<close>

theorem sendMail_succeeds_after_failed_StartTLS:
  "respond starttls_refusing_env
      [Dialer_Dial (10 * time_Second) ''mail.example.com:587'',
       smtp_NewClient ''mail.example.com:587'', Client_Hello ''app.example.com'']
      (Client_StartTLS \<lparr>InsecureSkipVerify = False, ServerName = ''mail.example.com''\<rparr>) =
     Some (lib_error ''454 TLS not available'')
   \<and> sendMailUsingConfigAdvanced starttls_refusing_env example_libs example_mail example_config
       False [] =
     (Ok (),
      [Dialer_Dial (10 * time_Second) ''mail.example.com:587'',
       smtp_NewClient ''mail.example.com:587'',
       Client_Hello ''app.example.com'',
       Client_StartTLS \<lparr>InsecureSkipVerify = False, ServerName = ''mail.example.com''\<rparr>,
       Client_Mail ''team@example.com'', Client_Rcpt ''user@example.com'', Client_Data,
       Message_WriteTo (SendMail_message example_libs example_mail 0), Writer_Close,
       Client_Close, Client_Quit, Conn_Close])"
  by (simp add: starttls_refusing_env_def example_config_def example_mail_def
      sendMailUsingConfigAdvanced_def ConnectToSMTPServer_def ConnectToSMTPServerAdvanced_def
      NewSMTPClient_def NewSMTPClientAdvanced_def NewSMTPClientAdvanced_setup_def SendMail_def
      client_call_def call_def connSecurityTls_def connSecurityStarttls_def Let_def)

section \<open>Properties of channel bookmarks\<close>

declare decimal_nat.simps [simp del]

lemma example_checks_simps:
  "IsValidId example_checks s =
     (length s = 26 \<and> set s \<subseteq> set ''abcdefghijklmnopqrstuvwxyz0123456789'')"
  "IsValidHTTPURL example_checks s =
     ((take 7 s = ''http://'' \<and> 7 < length s) \<or> (take 8 s = ''https://'' \<and> 8 < length s))"
  by (simp_all add: example_checks_def)

text \<open>
  C1 (amended): a record with a non-empty well-formed identifier, owner and channel
  reference, a non-empty display name, non-zero creation and update timestamps, the
  type tag link with a non-empty well-formed URL and no file reference, and whose image
  URL, original id and parent id are each empty or well-formed, is valid. A record gets
  a validation failure when it misses one of the required fields (identifier, owner,
  channel reference, display name, a timestamp), when its type tag is missing or not
  one of the two known tags, when it has the type tag link without a well-formed URL or
  the type tag file without a well-formed file reference, or when its image URL (for a
  link), original id or parent id is present and malformed. With the fields before it
  in order, a missing or unknown type tag is the failure reported.
\<close>

theorem IsValid_link_bookmark_and_missing_fields:
  "(Id b \<noteq> [] \<and> IsValidId v (Id b) \<and> OwnerId b \<noteq> [] \<and> IsValidId v (OwnerId b)
      \<and> ChannelId b \<noteq> [] \<and> IsValidId v (ChannelId b) \<and> DisplayName b \<noteq> []
      \<and> CreateAt b \<noteq> 0 \<and> UpdateAt b \<noteq> 0
      \<and> Type b = ChannelBookmarkLink \<and> LinkUrl b \<noteq> [] \<and> IsValidHTTPURL v (LinkUrl b)
      \<and> FileId b = []
      \<and> (ImageUrl b = [] \<or> IsValidHTTPURL v (ImageUrl b))
      \<and> (OriginalId b = [] \<or> IsValidId v (OriginalId b))
      \<and> (ParentId b = [] \<or> IsValidId v (ParentId b))
    \<longrightarrow> IsValid v b = None)
   \<and> (Id b = [] \<or> \<not> IsValidId v (Id b) \<or> OwnerId b = [] \<or> \<not> IsValidId v (OwnerId b)
      \<or> ChannelId b = [] \<or> \<not> IsValidId v (ChannelId b) \<or> DisplayName b = []
      \<or> CreateAt b = 0 \<or> UpdateAt b = 0
      \<or> (Type b \<noteq> ChannelBookmarkLink \<and> Type b \<noteq> ChannelBookmarkFile)
      \<or> (Type b = ChannelBookmarkLink \<and> (LinkUrl b = [] \<or> \<not> IsValidHTTPURL v (LinkUrl b)))
      \<or> (Type b = ChannelBookmarkFile \<and> (FileId b = [] \<or> \<not> IsValidId v (FileId b)))
      \<or> (Type b = ChannelBookmarkLink \<and> ImageUrl b \<noteq> [] \<and> \<not> IsValidHTTPURL v (ImageUrl b))
      \<or> (OriginalId b \<noteq> [] \<and> \<not> IsValidId v (OriginalId b))
      \<or> (ParentId b \<noteq> [] \<and> \<not> IsValidId v (ParentId b))
    \<longrightarrow> (\<exists>failure. IsValid v b = Some failure))
   \<and> (Type b \<noteq> ChannelBookmarkLink \<and> Type b \<noteq> ChannelBookmarkFile
        \<and> Id b \<noteq> [] \<and> IsValidId v (Id b) \<and> OwnerId b \<noteq> [] \<and> IsValidId v (OwnerId b)
        \<and> ChannelId b \<noteq> [] \<and> IsValidId v (ChannelId b) \<and> DisplayName b \<noteq> []
    \<longrightarrow> IsValid v b = Some invalid_type)"
  by (auto simp: IsValid_def ChannelBookmarkLink_def ChannelBookmarkFile_def)

theorem IsValid_link_bookmark_and_missing_fields_witness:
  "IsValid example_checks example_bookmark = None
   \<and> (\<exists>failure. IsValid example_checks bookmark_file_without_file_id = Some failure)
   \<and> IsValid example_checks bookmark_without_type = Some invalid_type
   \<and> (\<exists>failure. IsValid example_checks bookmark_invalid_parent_id = Some failure)"
proof -
  have ok: "Id example_bookmark \<noteq> [] \<and> IsValidId example_checks (Id example_bookmark)
      \<and> OwnerId example_bookmark \<noteq> [] \<and> IsValidId example_checks (OwnerId example_bookmark)
      \<and> ChannelId example_bookmark \<noteq> [] \<and> IsValidId example_checks (ChannelId example_bookmark)
      \<and> DisplayName example_bookmark \<noteq> []
      \<and> CreateAt example_bookmark \<noteq> 0 \<and> UpdateAt example_bookmark \<noteq> 0
      \<and> Type example_bookmark = ChannelBookmarkLink \<and> LinkUrl example_bookmark \<noteq> []
      \<and> IsValidHTTPURL example_checks (LinkUrl example_bookmark)
      \<and> FileId example_bookmark = []
      \<and> (ImageUrl example_bookmark = [] \<or> IsValidHTTPURL example_checks (ImageUrl example_bookmark))
      \<and> (OriginalId example_bookmark = [] \<or> IsValidId example_checks (OriginalId example_bookmark))
      \<and> (ParentId example_bookmark = [] \<or> IsValidId example_checks (ParentId example_bookmark))"
    by (simp add: example_bookmark_def example_checks_simps)
  have bad: "Type bookmark_file_without_file_id = ChannelBookmarkFile
      \<and> FileId bookmark_file_without_file_id = []"
    by (simp add: bookmark_file_without_file_id_def example_bookmark_def)
  have notype: "Type bookmark_without_type \<noteq> ChannelBookmarkLink
      \<and> Type bookmark_without_type \<noteq> ChannelBookmarkFile
      \<and> Id bookmark_without_type \<noteq> [] \<and> IsValidId example_checks (Id bookmark_without_type)
      \<and> OwnerId bookmark_without_type \<noteq> []
      \<and> IsValidId example_checks (OwnerId bookmark_without_type)
      \<and> ChannelId bookmark_without_type \<noteq> []
      \<and> IsValidId example_checks (ChannelId bookmark_without_type)
      \<and> DisplayName bookmark_without_type \<noteq> []"
    by (simp add: bookmark_without_type_def example_bookmark_def example_checks_simps
        ChannelBookmarkLink_def ChannelBookmarkFile_def)
  have parent: "ParentId bookmark_invalid_parent_id \<noteq> []
      \<and> \<not> IsValidId example_checks (ParentId bookmark_invalid_parent_id)"
    by (simp add: bookmark_invalid_parent_id_def example_bookmark_def example_checks_simps)
  have 1: "IsValid example_checks example_bookmark = None"
    by (rule IsValid_link_bookmark_and_missing_fields[of example_bookmark example_checks, THEN conjunct1, THEN mp]) (rule ok)
  have 2: "\<exists>failure. IsValid example_checks bookmark_file_without_file_id = Some failure"
    by (rule IsValid_link_bookmark_and_missing_fields[of bookmark_file_without_file_id example_checks,
          THEN conjunct2, THEN conjunct1, THEN mp]) (simp add: bad)
  have 3: "IsValid example_checks bookmark_without_type = Some invalid_type"
    by (rule IsValid_link_bookmark_and_missing_fields[of bookmark_without_type example_checks,
          THEN conjunct2, THEN conjunct2, THEN mp]) (rule notype)
  have 4: "\<exists>failure. IsValid example_checks bookmark_invalid_parent_id = Some failure"
    by (rule IsValid_link_bookmark_and_missing_fields[of bookmark_invalid_parent_id example_checks,
          THEN conjunct2, THEN conjunct1, THEN mp]) (simp add: parent)
  show ?thesis using 1 2 3 4 by simp
qed

text \<open>
  The first half of C1 without the amendment fails: the record of the test case
  \<open>bookmark of type link with invalid image url\<close> has every field the claim lists,
  and is refused for its image URL.
\<close>

theorem IsValid_refuses_invalid_image_url:
  "Id bookmark_invalid_image_url \<noteq> []
   \<and> IsValidId example_checks (Id bookmark_invalid_image_url)
   \<and> OwnerId bookmark_invalid_image_url \<noteq> []
   \<and> IsValidId example_checks (OwnerId bookmark_invalid_image_url)
   \<and> ChannelId bookmark_invalid_image_url \<noteq> []
   \<and> IsValidId example_checks (ChannelId bookmark_invalid_image_url)
   \<and> DisplayName bookmark_invalid_image_url \<noteq> []
   \<and> CreateAt bookmark_invalid_image_url \<noteq> 0
   \<and> UpdateAt bookmark_invalid_image_url \<noteq> 0
   \<and> Type bookmark_invalid_image_url = ChannelBookmarkLink
   \<and> LinkUrl bookmark_invalid_image_url \<noteq> []
   \<and> IsValidHTTPURL example_checks (LinkUrl bookmark_invalid_image_url)
   \<and> IsValid example_checks bookmark_invalid_image_url = Some invalid_image_url"
  by (simp add: bookmark_invalid_image_url_def example_bookmark_def example_checks_simps
      IsValid_def ChannelBookmarkLink_def ChannelBookmarkFile_def)

text \<open>
  C5: on a fresh record (both timestamps zero), \<open>PreSave\<close> at a non-zero clock
  reading leaves both timestamps non-zero, and the record it returns is the given one
  with these two timestamps: no other field changes.
\<close>

theorem PreSave_fresh_sets_timestamps_only:
  "CreateAt b = 0 \<Longrightarrow> UpdateAt b = 0 \<Longrightarrow> now \<noteq> 0 \<Longrightarrow>
     CreateAt (PreSave now b) \<noteq> 0 \<and> UpdateAt (PreSave now b) \<noteq> 0
     \<and> PreSave now b =
         b\<lparr>CreateAt := CreateAt (PreSave now b), UpdateAt := UpdateAt (PreSave now b)\<rparr>"
  by (simp add: PreSave_def)

theorem PreSave_fresh_sets_timestamps_only_witness:
  "CreateAt fresh_bookmark = 0 \<and> UpdateAt fresh_bookmark = 0
   \<and> CreateAt (PreSave 1700000000000 fresh_bookmark) \<noteq> 0
   \<and> UpdateAt (PreSave 1700000000000 fresh_bookmark) \<noteq> 0
   \<and> PreSave 1700000000000 fresh_bookmark =
       fresh_bookmark\<lparr>CreateAt := CreateAt (PreSave 1700000000000 fresh_bookmark),
                      UpdateAt := UpdateAt (PreSave 1700000000000 fresh_bookmark)\<rparr>"
proof -
  have z: "CreateAt fresh_bookmark = 0" "UpdateAt fresh_bookmark = 0"
    by (simp_all add: fresh_bookmark_def)
  have n: "(1700000000000::int) \<noteq> 0" by simp
  show ?thesis
    using z PreSave_fresh_sets_timestamps_only[OF z n] by blast
qed




subsection \<open>The fingerprint determines identifier and update timestamp\<close>

lemma of_char_digit: "d < 10 \<Longrightarrow> of_char (digit d) = 48 + d"
  by (simp add: digit_def)

lemma digits_value_snoc: "digits_value (s @ [c]) = 10 * digits_value s + (of_char c - 48)"
  by (simp add: digits_value_def)

lemma digits_value_decimal_nat: "digits_value (decimal_nat n) = n"
proof (induction n rule: decimal_nat.induct)
  case (1 n)
  show ?case
  proof (cases "n < 10")
    case True
    then show ?thesis
      by (simp add: decimal_nat.simps[of n] digits_value_def of_char_digit)
  next
    case False
    then have "digits_value (decimal_nat n) =
        10 * digits_value (decimal_nat (n div 10)) + (of_char (digit (n mod 10)) - 48)"
      by (simp add: decimal_nat.simps[of n] digits_value_snoc)
    also have "\<dots> = 10 * (n div 10) + n mod 10"
      using 1[OF False] by (simp add: of_char_digit)
    finally show ?thesis by simp
  qed
qed

lemma decimal_nat_inj: "decimal_nat m = decimal_nat n \<Longrightarrow> m = n"
  by (metis digits_value_decimal_nat)

lemma digit_not_sep: "d < 10 \<Longrightarrow> digit d \<noteq> CHR ''.'' \<and> digit d \<noteq> CHR ''-''"
proof -
  assume d: "d < 10"
  have "of_char (digit d) \<noteq> (46::nat)" "of_char (digit d) \<noteq> (45::nat)"
    using of_char_digit[OF d] by simp_all
  then show ?thesis by auto
qed

lemma decimal_nat_chars: "c \<in> set (decimal_nat n) \<Longrightarrow> c \<noteq> CHR ''.'' \<and> c \<noteq> CHR ''-''"
proof (induction n rule: decimal_nat.induct)
  case (1 n)
  show ?case
  proof (cases "n < 10")
    case True
    with 1(2) show ?thesis by (simp add: decimal_nat.simps[of n] digit_not_sep)
  next
    case False
    with 1 show ?thesis
      by (auto simp: decimal_nat.simps[of n] digit_not_sep)
  qed
qed

lemma decimal_nat_nonempty: "decimal_nat n \<noteq> []"
  by (simp add: decimal_nat.simps[of n])

lemma decimal_no_dot: "CHR ''.'' \<notin> set (decimal i)"
  using decimal_nat_chars by (auto simp: decimal_def)

lemma decimal_inj: "decimal i = decimal j \<Longrightarrow> i = j"
proof -
  assume e: "decimal i = decimal j"
  have hd_nat: "\<And>n. hd (decimal_nat n) \<noteq> CHR ''-''"
    using decimal_nat_chars decimal_nat_nonempty by (metis hd_in_set)
  show ?thesis
  proof (cases "i < 0"; cases "j < 0")
    assume "i < 0" "j < 0"
    with e have "decimal_nat (nat (- i)) = decimal_nat (nat (- j))" by (simp add: decimal_def)
    then have "nat (- i) = nat (- j)" by (rule decimal_nat_inj)
    with \<open>i < 0\<close> \<open>j < 0\<close> show ?thesis by simp
  next
    assume "i < 0" "\<not> j < 0"
    with e have "CHR ''-'' # decimal_nat (nat (- i)) = decimal_nat (nat j)" by (simp add: decimal_def)
    then have "hd (decimal_nat (nat j)) = CHR ''-''" by (metis list.sel(1))
    with hd_nat show ?thesis by blast
  next
    assume "\<not> i < 0" "j < 0"
    with e have "decimal_nat (nat i) = CHR ''-'' # decimal_nat (nat (- j))" by (simp add: decimal_def)
    then have "hd (decimal_nat (nat i)) = CHR ''-''" by (metis list.sel(1))
    with hd_nat show ?thesis by blast
  next
    assume "\<not> i < 0" "\<not> j < 0"
    with e have "decimal_nat (nat i) = decimal_nat (nat j)" by (simp add: decimal_def)
    then have "nat i = nat j" by (rule decimal_nat_inj)
    with \<open>\<not> i < 0\<close> \<open>\<not> j < 0\<close> show ?thesis by simp
  qed
qed

lemma split_at_first:
  "c \<notin> set xs \<Longrightarrow> c \<notin> set xs' \<Longrightarrow> xs @ c # ys = xs' @ c # ys' \<Longrightarrow> xs = xs' \<and> ys = ys'"
proof (induction xs arbitrary: xs')
  case Nil
  then show ?case by (cases xs') auto
next
  case (Cons a as)
  then show ?case by (cases xs') auto
qed

lemma split_at_last_dot:
  assumes "x @ ''.'' @ s = y @ ''.'' @ t" "CHR ''.'' \<notin> set s" "CHR ''.'' \<notin> set t"
  shows "x = y \<and> s = t"
proof -
  have "rev s @ CHR ''.'' # rev x = rev t @ CHR ''.'' # rev y"
    using arg_cong[OF assms(1), of rev] by simp
  then have "rev s = rev t \<and> rev x = rev y"
    using assms(2,3) by (intro split_at_first[of "CHR ''.''"]) simp_all
  then show ?thesis by simp
qed

text \<open>
  C4: two bookmarks have the same fingerprint exactly when they have the same
  identifier and the same update timestamp: the fingerprint is a function of these two
  fields, and a change of either changes it.
\<close>

theorem Etag_eq_iff:
  "(Etag CurrentVersion b1 = Etag CurrentVersion b2) =
     (Id b1 = Id b2 \<and> UpdateAt b1 = UpdateAt b2)"
proof
  assume "Etag CurrentVersion b1 = Etag CurrentVersion b2"
  then have "Id b1 @ ''.'' @ decimal (UpdateAt b1) = Id b2 @ ''.'' @ decimal (UpdateAt b2)"
    by (simp add: Etag_def)
  then have "Id b1 = Id b2 \<and> decimal (UpdateAt b1) = decimal (UpdateAt b2)"
    by (rule split_at_last_dot) (rule decimal_no_dot)+
  then show "Id b1 = Id b2 \<and> UpdateAt b1 = UpdateAt b2"
    using decimal_inj by blast
next
  assume "Id b1 = Id b2 \<and> UpdateAt b1 = UpdateAt b2"
  then show "Etag CurrentVersion b1 = Etag CurrentVersion b2"
    by (simp add: Etag_def)
qed

theorem Etag_eq_iff_witness:
  "Etag ''5.0'' example_bookmark = Etag ''5.0'' (example_bookmark\<lparr>DisplayName := ''other name''\<rparr>)
   \<and> Etag ''5.0'' example_bookmark \<noteq> Etag ''5.0'' (example_bookmark\<lparr>UpdateAt := 4\<rparr>)
   \<and> Etag ''5.0'' example_bookmark \<noteq>
       Etag ''5.0'' (example_bookmark\<lparr>Id := ''abcdefghijklmnopqrstuvwxy9''\<rparr>)"
  using
    Etag_eq_iff[of "''5.0''" example_bookmark "example_bookmark\<lparr>DisplayName := ''other name''\<rparr>"]
    Etag_eq_iff[of "''5.0''" example_bookmark "example_bookmark\<lparr>UpdateAt := 4\<rparr>"]
    Etag_eq_iff[of "''5.0''" example_bookmark
      "example_bookmark\<lparr>Id := ''abcdefghijklmnopqrstuvwxy9''\<rparr>"]
  by (simp add: example_bookmark_def)

end
